theory Spec2Isabelle
  imports Complex_Main
begin

section \<open>The ledger calculator of \<^verbatim>\<open>cli.py\<close>\<close>

text \<open>
  The balance engine of \<^verbatim>\<open>cli.py\<close>: the interest strategy, the class \<^verbatim>\<open>Advance\<close>
  and the class \<^verbatim>\<open>UserGlobalBalance\<close>, with the replay loop of \<^verbatim>\<open>balances\<close>.

  Conventions of the embedding.
  \<^item> A \<^verbatim>\<open>Decimal\<close> is a rational number and its \<^verbatim>\<open>+\<close>, \<^verbatim>\<open>-\<close>, \<^verbatim>\<open>*\<close> are the exact
    operations. Python's default decimal context keeps 28 significant digits; a result
    that needs more is rounded there, and that rounding is not part of this model.
    The integer \<^verbatim>\<open>0\<close> that \<^verbatim>\<open>pay\<close> and \<^verbatim>\<open>pay_interest\<close> store is the number 0.
  \<^item> A \<^verbatim>\<open>datetime\<close> produced by \<^verbatim>\<open>strptime(s, '%Y-%m-%d')\<close> is a midnight, modelled by
    its day number (the proleptic Gregorian ordinal, \<open>ymd2ord\<close> below); the difference
    of two such values has \<^verbatim>\<open>.days\<close> equal to the difference of the day numbers and
    \<^verbatim>\<open>timedelta(days=1)\<close> adds 1. The range limits of \<^verbatim>\<open>datetime\<close> (years 1 to 9999)
    and unparseable date strings are outside the model.
  \<^item> The field \<^verbatim>\<open>_identifier\<close> is \<open>advance_identifier\<close>; the other fields keep
    their names without the leading underscore.
  \<^item> A method that mutates \<^verbatim>\<open>self\<close> takes the object and returns the new object,
    paired with the returned value when it has one.
\<close>

subsection \<open>Calendar dates\<close>

text \<open>The day number of a calendar date, as \<^verbatim>\<open>datetime\<close> computes it (day 1 is 0001-01-01).\<close>

definition is_leap :: "int \<Rightarrow> bool" where
  "is_leap y = (if y mod 4 = 0 then (if y mod 100 = 0 then y mod 400 = 0 else True) else False)"

definition days_before_year :: "int \<Rightarrow> int" where
  "days_before_year y = (y - 1) * 365 + (y - 1) div 4 - (y - 1) div 100 + (y - 1) div 400"

definition days_in_month :: "int \<Rightarrow> int \<Rightarrow> int" where
  "days_in_month y m =
     (if m = 2 then (if is_leap y then 29 else 28)
      else if m = 4 \<or> m = 6 \<or> m = 9 \<or> m = 11 then 30 else 31)"

definition days_before_month :: "int \<Rightarrow> int \<Rightarrow> int" where
  "days_before_month y m = sum_list (map (days_in_month y) [1 .. m - 1])"

definition ymd2ord :: "int \<Rightarrow> int \<Rightarrow> int \<Rightarrow> int" where
  "ymd2ord y m d = days_before_year y + days_before_month y m + d"

subsection \<open>The interest strategy\<close>

text \<open>
  \<^verbatim>\<open>InterestRateStrategyBase\<close> is abstract; its one concrete subclass is
  \<^verbatim>\<open>SimpleInterestRateStrategy\<close>, which holds \<^verbatim>\<open>daily_interest\<close>.
\<close>

datatype interest_rate_strategy = SimpleInterestRateStrategy (daily_interest: rat)

fun calculate :: "interest_rate_strategy \<Rightarrow> rat \<Rightarrow> rat \<Rightarrow> rat" where
  "calculate (SimpleInterestRateStrategy r) amount days = (amount * (1 + r * days)) - amount"

subsection \<open>Advance\<close>

record advance =
  advance_identifier :: nat
  created_at :: int
  updated_at :: int
  interest_rate_strategy :: interest_rate_strategy
  initial_amount :: rat
  balance :: rat
  interest_payable_balance :: rat
  interest_paid :: rat

text \<open>\<^verbatim>\<open>Advance.__init__\<close>.\<close>

definition Advance :: "interest_rate_strategy \<Rightarrow> nat \<Rightarrow> rat \<Rightarrow> int \<Rightarrow> advance" where
  "Advance strategy ident bal created =
     \<lparr> advance_identifier = ident, created_at = created, updated_at = created,
       interest_rate_strategy = strategy, initial_amount = bal,
       balance = bal, interest_payable_balance = 0, interest_paid = 0 \<rparr>"

text \<open>The dictionary that \<^verbatim>\<open>get_statement\<close> returns (\<^verbatim>\<open>created_at\<close> as its day number).\<close>

record advance_statement =
  st_identifier :: nat
  st_created_at :: int
  st_initial_amount :: rat
  st_balance :: rat
  st_interest_payable_balance :: rat
  st_interest_paid :: rat

definition calculate_interest_payable_balance :: "advance \<Rightarrow> int \<Rightarrow> advance" where
  "calculate_interest_payable_balance a date =
     (let interest_period_days = date - updated_at a in
      a\<lparr> interest_payable_balance :=
           interest_payable_balance a
           + calculate (interest_rate_strategy a) (balance a) (of_int interest_period_days),
         updated_at := date \<rparr>)"

definition get_statement :: "advance \<Rightarrow> int \<Rightarrow> advance \<times> advance_statement" where
  "get_statement a date =
     (let a1 = calculate_interest_payable_balance a (date + 1) in
      (a1, \<lparr> st_identifier = advance_identifier a1, st_created_at = created_at a1,
              st_initial_amount = initial_amount a1, st_balance = balance a1,
              st_interest_payable_balance = interest_payable_balance a1,
              st_interest_paid = interest_paid a1 \<rparr>))"

definition pay :: "advance \<Rightarrow> rat \<Rightarrow> advance \<times> rat" where
  "pay a amount =
     (if amount \<le> balance a then (a\<lparr> balance := balance a - amount \<rparr>, 0)
      else (a\<lparr> balance := 0 \<rparr>, amount - balance a))"

definition pay_interest :: "advance \<Rightarrow> rat \<Rightarrow> int \<Rightarrow> advance \<times> rat" where
  "pay_interest a amount paid_date =
     (let a1 = calculate_interest_payable_balance a paid_date in
      if amount \<le> interest_payable_balance a1
      then (a1\<lparr> interest_payable_balance := interest_payable_balance a1 - amount,
                interest_paid := interest_paid a1 + amount \<rparr>, 0)
      else (a1\<lparr> interest_paid := interest_paid a1 + interest_payable_balance a1,
                interest_payable_balance := 0 \<rparr>,
            amount - interest_payable_balance a1))"

subsection \<open>UserGlobalBalance\<close>

record user_global_balance =
  overall_payments_for_future :: rat
  actives_advances :: "advance list"

text \<open>\<^verbatim>\<open>UserGlobalBalance.__init__\<close>.\<close>

definition UserGlobalBalance :: user_global_balance where
  "UserGlobalBalance = \<lparr> overall_payments_for_future = 0, actives_advances = [] \<rparr>"

text \<open>
  The two loops of \<^verbatim>\<open>pay_advance\<close>. Each walks the advances in list order, hands the
  remaining amount to the advance and stops (\<^verbatim>\<open>break\<close>) as soon as the remainder is 0;
  the advances after the break are left as they are.
\<close>

fun pay_interest_loop :: "advance list \<Rightarrow> rat \<Rightarrow> int \<Rightarrow> advance list \<times> rat" where
  "pay_interest_loop [] amount paid_date = ([], amount)"
| "pay_interest_loop (a # rest) amount paid_date =
     (case pay_interest a amount paid_date of
        (a', amount') \<Rightarrow>
          if amount' = 0 then (a' # rest, amount')
          else (case pay_interest_loop rest amount' paid_date of
                  (rest', r) \<Rightarrow> (a' # rest', r)))"

fun pay_loop :: "advance list \<Rightarrow> rat \<Rightarrow> advance list \<times> rat" where
  "pay_loop [] amount = ([], amount)"
| "pay_loop (a # rest) amount =
     (case pay a amount of
        (a', amount') \<Rightarrow>
          if amount' = 0 then (a' # rest, amount')
          else (case pay_loop rest amount' of
                  (rest', r) \<Rightarrow> (a' # rest', r)))"

definition pay_advance :: "user_global_balance \<Rightarrow> rat \<Rightarrow> int \<Rightarrow> user_global_balance" where
  "pay_advance g amount paid_date =
     (case pay_interest_loop (actives_advances g) amount paid_date of
        (advs1, amount1) \<Rightarrow>
          (case (if amount1 > 0 then pay_loop advs1 amount1 else (advs1, amount1)) of
             (advs2, amount2) \<Rightarrow>
               \<lparr> overall_payments_for_future =
                   (if amount2 > 0 then overall_payments_for_future g + amount2
                    else overall_payments_for_future g),
                 actives_advances = advs2 \<rparr>))"

definition create_advance :: "user_global_balance \<Rightarrow> rat \<Rightarrow> int \<Rightarrow> user_global_balance" where
  "create_advance g bal advance_date =
     (let g1 = g\<lparr> actives_advances :=
                   actives_advances g
                   @ [Advance (SimpleInterestRateStrategy (35 / 100000))
                        (length (actives_advances g) + 1) bal advance_date] \<rparr>
      in if overall_payments_for_future g1 > 0
         then pay_advance (g1\<lparr> overall_payments_for_future := 0 \<rparr>)
                (overall_payments_for_future g1) advance_date
         else g1)"

text \<open>The dictionary that \<^verbatim>\<open>get_global_statement\<close> returns.\<close>

record global_statement =
  gs_overall_payments_for_future :: rat
  gs_overall_advance_balance :: rat
  gs_overall_interest_payable_balance :: rat
  gs_overall_interest_paid :: rat
  gs_individual_advance_statement :: "advance_statement list"

definition get_global_statement ::
  "user_global_balance \<Rightarrow> int \<Rightarrow> user_global_balance \<times> global_statement" where
  "get_global_statement g end_date =
     (let results = map (\<lambda>a. get_statement a end_date) (actives_advances g);
          sts = map snd results
      in (g\<lparr> actives_advances := map fst results \<rparr>,
          \<lparr> gs_overall_payments_for_future = overall_payments_for_future g,
            gs_overall_advance_balance = foldl (\<lambda>acc s. acc + st_balance s) 0 sts,
            gs_overall_interest_payable_balance =
              foldl (\<lambda>acc s. acc + st_interest_payable_balance s) 0 sts,
            gs_overall_interest_paid = foldl (\<lambda>acc s. acc + st_interest_paid s) 0 sts,
            gs_individual_advance_statement = sts \<rparr>))"

subsection \<open>The replay of \<^verbatim>\<open>balances\<close>\<close>

text \<open>
  A row of the table \<^verbatim>\<open>events\<close>, in the order the query returns them
  (\<^verbatim>\<open>order by date_created asc\<close>): its type, its amount and its date.
\<close>

record event =
  event_type :: string
  event_amount :: rat
  event_date :: int

definition apply_event :: "int \<Rightarrow> user_global_balance \<Rightarrow> event \<Rightarrow> user_global_balance" where
  "apply_event end_date g ev =
     (if end_date \<ge> event_date ev then
        (if event_type ev = ''advance'' then create_advance g (event_amount ev) (event_date ev)
         else if event_type ev = ''payment'' then pay_advance g (event_amount ev) (event_date ev)
         else g)
      else g)"

text \<open>The loop over the fetched rows, from a fresh \<^verbatim>\<open>UserGlobalBalance()\<close>.\<close>

definition replay :: "int \<Rightarrow> event list \<Rightarrow> user_global_balance" where
  "replay end_date events = foldl (apply_event end_date) UserGlobalBalance events"


subsection \<open>Sequences of calls\<close>

text \<open>
  The three public methods of \<^verbatim>\<open>UserGlobalBalance\<close>, as a caller may invoke them one
  after the other on a fresh object. \<^verbatim>\<open>balances\<close> is one such caller: it creates and
  pays in the order of the rows and asks for the statement last.
\<close>

datatype call = CreateAdvance rat int | PayAdvance rat int | GetGlobalStatement int

fun do_call :: "user_global_balance \<Rightarrow> call \<Rightarrow> user_global_balance" where
  "do_call g (CreateAdvance amount d) = create_advance g amount d"
| "do_call g (PayAdvance amount d) = pay_advance g amount d"
| "do_call g (GetGlobalStatement d) = fst (get_global_statement g d)"


fun positive_amount :: "call \<Rightarrow> bool" where
  "positive_amount (CreateAdvance amount d) = (0 < amount)"
| "positive_amount (PayAdvance amount d) = (0 < amount)"
| "positive_amount (GetGlobalStatement d) = True"

definition run :: "call list \<Rightarrow> user_global_balance" where
  "run cs = foldl do_call UserGlobalBalance cs"


subsection \<open>Example inputs\<close>


definition settled_calls :: "call list" where
  "settled_calls = [CreateAdvance 100 (ymd2ord 2021 1 1), PayAdvance 300 (ymd2ord 2021 1 11)]"

subsection \<open>Notions used in the proofs\<close>

text \<open>
  \<open>accrued a d\<close> is the interest payable of \<open>a\<close> once accrued through \<open>d\<close>.
  \<open>advance_ok now a\<close> is the invariant of an advance when the latest call was at date
  \<open>now\<close>: a statement leaves \<open>updated_at\<close> one day ahead of its date, and the interest of
  that day is then part of the payable balance. \<open>settled\<close> says that nothing is owed;
  \<open>credit_ok\<close> that a credit is only held while every advance is settled.
\<close>

definition accrued :: "advance \<Rightarrow> int \<Rightarrow> rat" where
  "accrued a d = interest_payable_balance a
       + balance a * daily_interest (interest_rate_strategy a) * of_int (d - updated_at a)"



definition settled :: "advance \<Rightarrow> bool" where
  "settled a \<longleftrightarrow> balance a = 0 \<and> interest_payable_balance a = 0"

definition credit_ok :: "user_global_balance \<Rightarrow> bool" where
  "credit_ok g \<longleftrightarrow>
     0 \<le> overall_payments_for_future g
     \<and> (0 < overall_payments_for_future g \<longrightarrow> list_all settled (actives_advances g))"

section \<open>Single operations\<close>

lemma calculate_simple: "calculate s p n = p * daily_interest s * n"
  by (cases s) (simp add: algebra_simps)

lemma calc_ipb_eq:
  "calculate_interest_payable_balance a d =
     a\<lparr> interest_payable_balance := accrued a d, updated_at := d \<rparr>"
  by (simp add: calculate_interest_payable_balance_def calculate_simple accrued_def)



lemma pay_interest_fst:
  "fst (pay_interest a amt d) =
     a\<lparr> interest_payable_balance := (if amt \<le> accrued a d then accrued a d - amt else 0),
        interest_paid := interest_paid a + (if amt \<le> accrued a d then amt else accrued a d),
        updated_at := d \<rparr>"
  by (simp add: pay_interest_def calc_ipb_eq Let_def)

lemma pay_interest_snd:
  "snd (pay_interest a amt d) = (if amt \<le> accrued a d then 0 else amt - accrued a d)"
  by (simp add: pay_interest_def calc_ipb_eq Let_def)

lemma pay_fst:
  "fst (pay a amt) = a\<lparr> balance := (if amt \<le> balance a then balance a - amt else 0) \<rparr>"
  by (simp add: pay_def)

lemma pay_snd:
  "snd (pay a amt) = (if amt \<le> balance a then 0 else amt - balance a)"
  by (simp add: pay_def)



lemma pay_interest_remainder_zero:
  "snd (pay_interest a amt d) \<noteq> 0 \<Longrightarrow> interest_payable_balance (fst (pay_interest a amt d)) = 0"
  by (simp add: pay_interest_fst pay_interest_snd split: if_splits)

lemma pay_remainder_zero: "snd (pay a amt) \<noteq> 0 \<Longrightarrow> balance (fst (pay a amt)) = 0"
  by (simp add: pay_fst pay_snd split: if_splits)


lemma pay_interest_settled:
  "settled a \<Longrightarrow> 0 < amt \<Longrightarrow> pay_interest a amt d = (a\<lparr> updated_at := d \<rparr>, amt)"
  by (simp add: settled_def prod_eq_iff pay_interest_fst pay_interest_snd accrued_def)

lemma pay_settled: "balance a = 0 \<Longrightarrow> 0 < amt \<Longrightarrow> pay a amt = (a, amt)"
  by (simp add: prod_eq_iff pay_fst pay_snd)

lemma settled_get_statement: "settled a \<Longrightarrow> settled (fst (get_statement a d))"
  by (simp add: settled_def get_statement_def calc_ipb_eq accrued_def)

subsection \<open>The invariant of one advance\<close>









section \<open>The loops of \<^verbatim>\<open>pay_advance\<close>\<close>

lemma pay_interest_loop_Cons:
  "pay_interest_loop (a # rest) amt d =
     (if snd (pay_interest a amt d) = 0 then (fst (pay_interest a amt d) # rest, 0)
      else (fst (pay_interest a amt d) # fst (pay_interest_loop rest (snd (pay_interest a amt d)) d),
            snd (pay_interest_loop rest (snd (pay_interest a amt d)) d)))"
  by (simp split: prod.splits)

lemma pay_loop_Cons:
  "pay_loop (a # rest) amt =
     (if snd (pay a amt) = 0 then (fst (pay a amt) # rest, 0)
      else (fst (pay a amt) # fst (pay_loop rest (snd (pay a amt))),
            snd (pay_loop rest (snd (pay a amt)))))"
  by (simp split: prod.splits)





text \<open>A remainder other than 0 means that the loop has emptied every advance.\<close>

lemma pay_interest_loop_remainder_zero:
  "snd (pay_interest_loop advs amt d) \<noteq> 0 \<Longrightarrow>
   list_all (\<lambda>a. interest_payable_balance a = 0) (fst (pay_interest_loop advs amt d))"
proof (induction advs arbitrary: amt)
  case Nil
  then show ?case by simp
next
  case (Cons a rest)
  then show ?case
    by (simp add: pay_interest_loop_Cons pay_interest_remainder_zero
          del: pay_interest_loop.simps(2) split: if_splits)
qed

lemma pay_loop_remainder_zero:
  "snd (pay_loop advs amt) \<noteq> 0 \<Longrightarrow> list_all (\<lambda>a. balance a = 0) (fst (pay_loop advs amt))"
proof (induction advs arbitrary: amt)
  case Nil
  then show ?case by simp
next
  case (Cons a rest)
  then show ?case
    by (simp add: pay_loop_Cons pay_remainder_zero del: pay_loop.simps(2) split: if_splits)
qed




lemma pay_loop_interest_payable_balance:
  "map interest_payable_balance (fst (pay_loop advs amt)) = map interest_payable_balance advs"
  by (induction advs arbitrary: amt)
     (simp_all add: pay_loop_Cons pay_fst del: pay_loop.simps(2))










lemma pay_interest_loop_settled:
  "list_all settled xs \<Longrightarrow> 0 < amt \<Longrightarrow>
   pay_interest_loop (xs @ ys) amt d
     = (map (\<lambda>a. a\<lparr> updated_at := d \<rparr>) xs @ fst (pay_interest_loop ys amt d),
        snd (pay_interest_loop ys amt d))"
  by (induction xs) (simp_all add: pay_interest_settled)

lemma pay_loop_settled:
  "list_all (\<lambda>a. balance a = 0) xs \<Longrightarrow> 0 < amt \<Longrightarrow>
   pay_loop (xs @ ys) amt = (xs @ fst (pay_loop ys amt), snd (pay_loop ys amt))"
  by (induction xs) (simp_all add: pay_settled)





section \<open>The engine\<close>

lemma pay_advance_advances:
  "actives_advances (pay_advance g amt d) =
     (if 0 < snd (pay_interest_loop (actives_advances g) amt d)
      then fst (pay_loop (fst (pay_interest_loop (actives_advances g) amt d))
                  (snd (pay_interest_loop (actives_advances g) amt d)))
      else fst (pay_interest_loop (actives_advances g) amt d))"
  by (simp add: pay_advance_def split: prod.splits)

lemma pay_advance_credit:
  "overall_payments_for_future (pay_advance g amt d) =
     (if 0 < snd (pay_interest_loop (actives_advances g) amt d)
         \<and> 0 < snd (pay_loop (fst (pay_interest_loop (actives_advances g) amt d))
                        (snd (pay_interest_loop (actives_advances g) amt d)))
      then overall_payments_for_future g
           + snd (pay_loop (fst (pay_interest_loop (actives_advances g) amt d))
                    (snd (pay_interest_loop (actives_advances g) amt d)))
      else overall_payments_for_future g)"
  by (simp add: pay_advance_def split: prod.splits)


lemma list_all_field: "list_all (\<lambda>a. f a = (0::rat)) xs \<longleftrightarrow> (\<forall>v \<in> set (map f xs). v = 0)"
  by (simp add: list_all_iff)


lemma pay_advance_credit_changed:
  assumes "overall_payments_for_future (pay_advance g amt d) \<noteq> overall_payments_for_future g"
  shows "list_all settled (actives_advances (pay_advance g amt d))"
proof -
  let ?L1 = "pay_interest_loop (actives_advances g) amt d"
  let ?L2 = "pay_loop (fst ?L1) (snd ?L1)"
  have r: "0 < snd ?L1" "0 < snd ?L2"
    using assms by (simp_all add: pay_advance_credit split: if_splits)
  have "list_all (\<lambda>a. interest_payable_balance a = 0) (fst ?L1)"
    using r(1) by (intro pay_interest_loop_remainder_zero) simp
  then have i: "list_all (\<lambda>a. interest_payable_balance a = 0) (fst ?L2)"
    unfolding list_all_field by (simp only: pay_loop_interest_payable_balance)
  have b: "list_all (\<lambda>a. balance a = 0) (fst ?L2)"
    using r(2) by (intro pay_loop_remainder_zero) simp
  show ?thesis using r i b
    by (simp add: pay_advance_advances settled_def list_all_iff)
qed

lemma pay_advance_settled:
  assumes "list_all settled (actives_advances g)" "0 < amt"
  shows "pay_advance g amt d
         = \<lparr> overall_payments_for_future = overall_payments_for_future g + amt,
             actives_advances = map (\<lambda>a. a\<lparr> updated_at := d \<rparr>) (actives_advances g) \<rparr>"
proof -
  have 1: "pay_interest_loop (actives_advances g) amt d
           = (map (\<lambda>a. a\<lparr> updated_at := d \<rparr>) (actives_advances g), amt)"
    using pay_interest_loop_settled [OF assms, of "[]" d] by simp
  have "list_all (\<lambda>a. balance a = 0) (map (\<lambda>a. a\<lparr> updated_at := d \<rparr>) (actives_advances g))"
    using assms(1) by (simp add: list_all_iff settled_def)
  then have 2: "pay_loop (map (\<lambda>a. a\<lparr> updated_at := d \<rparr>) (actives_advances g)) amt
           = (map (\<lambda>a. a\<lparr> updated_at := d \<rparr>) (actives_advances g), amt)"
    using pay_loop_settled [of "map (\<lambda>a. a\<lparr> updated_at := d \<rparr>) (actives_advances g)" amt "[]"]
      assms(2) by simp
  show ?thesis using assms(2) by (simp add: pay_advance_def 1 2)
qed

lemma create_advance_with_credit:
  assumes "list_all settled (actives_advances g)" "0 < overall_payments_for_future g"
  shows "create_advance g b d
         = \<lparr> overall_payments_for_future =
               (if overall_payments_for_future g \<le> b then 0
                else overall_payments_for_future g - b),
             actives_advances =
               map (\<lambda>a. a\<lparr> updated_at := d \<rparr>) (actives_advances g)
               @ [(Advance (SimpleInterestRateStrategy (35 / 100000))
                     (length (actives_advances g) + 1) b d)
                    \<lparr> balance := (if overall_payments_for_future g \<le> b
                                  then b - overall_payments_for_future g else 0) \<rparr>] \<rparr>"
proof -
  define c where "c = overall_payments_for_future g"
  define new where
    "new = Advance (SimpleInterestRateStrategy (35 / 100000)) (length (actives_advances g) + 1) b d"
  define old where "old = map (\<lambda>a. a\<lparr> updated_at := d \<rparr>) (actives_advances g)"
  have c: "0 < c" using assms(2) by (simp add: c_def)
  have new: "pay_interest new c d = (new, c)"
    using c by (simp add: prod_eq_iff pay_interest_fst pay_interest_snd accrued_def new_def Advance_def)
  have "pay_interest_loop [new] c d = ([new], c)"
    using c by (simp add: new)
  then have 1: "pay_interest_loop (actives_advances g @ [new]) c d = (old @ [new], c)"
    using pay_interest_loop_settled [OF assms(1) c, of "[new]" d] by (simp add: old_def)
  have "list_all (\<lambda>a. balance a = 0) old"
    using assms(1) by (simp add: list_all_iff settled_def old_def)
  then have 2: "pay_loop (old @ [new]) c = (old @ fst (pay_loop [new] c), snd (pay_loop [new] c))"
    using c by (rule pay_loop_settled)
  have 3: "pay_loop [new] c
           = ([new\<lparr> balance := (if c \<le> b then b - c else 0) \<rparr>], if c \<le> b then 0 else c - b)"
    by (simp add: pay_def new_def Advance_def)
  have "pay_advance (g\<lparr> actives_advances := actives_advances g @ [new],
                        overall_payments_for_future := 0 \<rparr>) c d
        = \<lparr> overall_payments_for_future = (if c \<le> b then 0 else c - b),
            actives_advances = old @ [new\<lparr> balance := (if c \<le> b then b - c else 0) \<rparr>] \<rparr>"
    using c by (simp add: pay_advance_def 1 2 3 del: pay_loop.simps pay_interest_loop.simps)
  then show ?thesis using c
    unfolding create_advance_def Let_def c_def new_def old_def by simp
qed



subsection \<open>Invariants along a sequence of calls\<close>









lemma credit_ok_init: "credit_ok UserGlobalBalance"
  by (simp add: credit_ok_def UserGlobalBalance_def)

lemma credit_ok_pay_advance:
  assumes "credit_ok g" "0 < amt"
  shows "credit_ok (pay_advance g amt d)"
proof (cases "0 < overall_payments_for_future g")
  case True
  then have "list_all settled (actives_advances g)" using assms(1) by (simp add: credit_ok_def)
  then show ?thesis using assms True
    by (simp add: pay_advance_settled credit_ok_def list_all_iff settled_def)
next
  case False
  have nonneg: "0 \<le> overall_payments_for_future (pay_advance g amt d)"
    using assms(1) by (simp add: pay_advance_credit credit_ok_def)
  have "list_all settled (actives_advances (pay_advance g amt d))"
    if "0 < overall_payments_for_future (pay_advance g amt d)"
    using that False by (intro pay_advance_credit_changed) auto
  then show ?thesis using nonneg by (simp add: credit_ok_def)
qed

lemma credit_ok_create_advance:
  assumes "credit_ok g"
  shows "credit_ok (create_advance g b d)"
proof (cases "0 < overall_payments_for_future g")
  case True
  then have s: "list_all settled (actives_advances g)" using assms by (simp add: credit_ok_def)
  show ?thesis
    by (simp add: create_advance_with_credit [OF s True] credit_ok_def)
       (use s in \<open>simp add: list_all_iff settled_def Advance_def\<close>)
next
  case False
  then show ?thesis using assms
    by (simp add: create_advance_def Let_def credit_ok_def)
qed

lemma credit_ok_get_global_statement:
  "credit_ok g \<Longrightarrow> credit_ok (fst (get_global_statement g d))"
  by (simp add: credit_ok_def get_global_statement_def Let_def list_all_iff settled_get_statement)

lemma do_call_credit_ok: "credit_ok g \<Longrightarrow> positive_amount c \<Longrightarrow> credit_ok (do_call g c)"
  by (cases c)
     (simp_all add: credit_ok_pay_advance credit_ok_create_advance credit_ok_get_global_statement)

lemma run_credit_ok: "list_all positive_amount cs \<Longrightarrow> credit_ok (run cs)"
  by (induction cs rule: rev_induct) (simp_all add: run_def credit_ok_init do_call_credit_ok)


subsection \<open>The replay is a sequence of calls\<close>









subsection \<open>One payment\<close>



section \<open>The claims\<close>

lemmas ymd_defs = ymd2ord_def days_before_year_def days_before_month_def days_in_month_def
  is_leap_def





text \<open>
  Claim C3. Let an advance of \<open>b\<close> be created at \<open>d\<close> in a state, reached by calls with
  positive amounts, whose credit is positive. Then \<open>create_advance\<close> is \<open>pay_advance\<close> of the
  whole former credit on the state with the new advance appended and the credit reset to 0.
  Every earlier advance is settled, so the two loops pass it by (only its \<open>updated_at\<close> moves
  to \<open>d\<close>) and the credit goes to the new advance, which has no interest yet: its balance
  becomes \<open>b\<close> minus the credit and the credit 0, or, when the credit exceeds \<open>b\<close>, its balance
  becomes 0 and exactly the excess is the new credit.
\<close>

theorem C3_carry_forward:
  assumes "list_all positive_amount cs" and "0 < overall_payments_for_future (run cs)"
  shows "create_advance (run cs) b d
           = pay_advance
               ((run cs)\<lparr> actives_advances :=
                             actives_advances (run cs)
                             @ [Advance (SimpleInterestRateStrategy (35 / 100000))
                                  (length (actives_advances (run cs)) + 1) b d],
                          overall_payments_for_future := 0 \<rparr>)
               (overall_payments_for_future (run cs)) d
         \<and> list_all (\<lambda>a. balance a = 0 \<and> interest_payable_balance a = 0)
             (actives_advances (run cs))
         \<and> actives_advances (create_advance (run cs) b d)
           = map (\<lambda>a. a\<lparr> updated_at := d \<rparr>) (actives_advances (run cs))
             @ [(Advance (SimpleInterestRateStrategy (35 / 100000))
                   (length (actives_advances (run cs)) + 1) b d)
                  \<lparr> balance := (if overall_payments_for_future (run cs) \<le> b
                                then b - overall_payments_for_future (run cs) else 0) \<rparr>]
         \<and> overall_payments_for_future (create_advance (run cs) b d)
           = (if overall_payments_for_future (run cs) \<le> b then 0
              else overall_payments_for_future (run cs) - b)"
proof -
  have s: "list_all settled (actives_advances (run cs))"
    using run_credit_ok [OF assms(1)] assms(2) by (simp add: credit_ok_def)
  have 1: "create_advance (run cs) b d
           = pay_advance
               ((run cs)\<lparr> actives_advances :=
                             actives_advances (run cs)
                             @ [Advance (SimpleInterestRateStrategy (35 / 100000))
                                  (length (actives_advances (run cs)) + 1) b d],
                          overall_payments_for_future := 0 \<rparr>)
               (overall_payments_for_future (run cs)) d"
    using assms(2) by (simp add: create_advance_def Let_def)
  have 2: "list_all (\<lambda>a. balance a = 0 \<and> interest_payable_balance a = 0)
             (actives_advances (run cs))"
    using s by (simp add: list_all_iff settled_def)
  have 3: "create_advance (run cs) b d
         = \<lparr> overall_payments_for_future =
               (if overall_payments_for_future (run cs) \<le> b then 0
                else overall_payments_for_future (run cs) - b),
             actives_advances =
               map (\<lambda>a. a\<lparr> updated_at := d \<rparr>) (actives_advances (run cs))
               @ [(Advance (SimpleInterestRateStrategy (35 / 100000))
                     (length (actives_advances (run cs)) + 1) b d)
                    \<lparr> balance := (if overall_payments_for_future (run cs) \<le> b
                                  then b - overall_payments_for_future (run cs) else 0) \<rparr>] \<rparr>"
    by (rule create_advance_with_credit [OF s assms(2)])
  show ?thesis
  proof (intro conjI)
    show "create_advance (run cs) b d
           = pay_advance
               ((run cs)\<lparr> actives_advances :=
                             actives_advances (run cs)
                             @ [Advance (SimpleInterestRateStrategy (35 / 100000))
                                  (length (actives_advances (run cs)) + 1) b d],
                          overall_payments_for_future := 0 \<rparr>)
               (overall_payments_for_future (run cs)) d"
      by (rule 1)
  qed (simp_all only: 2 3 user_global_balance.simps)
qed

theorem C3_carry_forward_witness:
  "list_all positive_amount settled_calls
   \<and> run settled_calls
     = \<lparr> overall_payments_for_future = 19965 / 100,
         actives_advances =
           [\<lparr> advance_identifier = 1, created_at = ymd2ord 2021 1 1,
               updated_at = ymd2ord 2021 1 11,
               interest_rate_strategy = SimpleInterestRateStrategy (35 / 100000),
               initial_amount = 100, balance = 0,
               interest_payable_balance = 0, interest_paid = 35 / 100 \<rparr>] \<rparr>
   \<and> 0 < overall_payments_for_future (run settled_calls)
   \<and> create_advance (run settled_calls) 150 (ymd2ord 2021 2 1)
     = \<lparr> overall_payments_for_future = 4965 / 100,
         actives_advances =
           [\<lparr> advance_identifier = 1, created_at = ymd2ord 2021 1 1,
               updated_at = ymd2ord 2021 2 1,
               interest_rate_strategy = SimpleInterestRateStrategy (35 / 100000),
               initial_amount = 100, balance = 0,
               interest_payable_balance = 0, interest_paid = 35 / 100 \<rparr>,
            \<lparr> advance_identifier = 2, created_at = ymd2ord 2021 2 1,
               updated_at = ymd2ord 2021 2 1,
               interest_rate_strategy = SimpleInterestRateStrategy (35 / 100000),
               initial_amount = 150, balance = 0,
               interest_payable_balance = 0, interest_paid = 0 \<rparr>] \<rparr>
   \<and> create_advance (run settled_calls) 1000 (ymd2ord 2021 2 1)
     = \<lparr> overall_payments_for_future = 0,
         actives_advances =
           [\<lparr> advance_identifier = 1, created_at = ymd2ord 2021 1 1,
               updated_at = ymd2ord 2021 2 1,
               interest_rate_strategy = SimpleInterestRateStrategy (35 / 100000),
               initial_amount = 100, balance = 0,
               interest_payable_balance = 0, interest_paid = 35 / 100 \<rparr>,
            \<lparr> advance_identifier = 2, created_at = ymd2ord 2021 2 1,
               updated_at = ymd2ord 2021 2 1,
               interest_rate_strategy = SimpleInterestRateStrategy (35 / 100000),
               initial_amount = 1000, balance = 80035 / 100,
               interest_payable_balance = 0, interest_paid = 0 \<rparr>] \<rparr>"
  using C3_carry_forward [of settled_calls 150 "ymd2ord 2021 2 1"]
    C3_carry_forward [of settled_calls 1000 "ymd2ord 2021 2 1"]
  by (simp add: settled_calls_def ymd_defs run_def create_advance_def
        pay_advance_def pay_interest_def pay_def calc_ipb_eq accrued_def Advance_def
        UserGlobalBalance_def Let_def)




text \<open>
  Claim C5. An advance of 1000.00 on 2021-01-01 at 0.00035 per day, then a payment of
  500.00 on 2021-01-15: the interest phase accrues 14 days from \<open>updated_at\<close> = 2021-01-01,
  which is 4.90; after the payment \<open>interest_paid\<close> is 4.90, \<open>interest_payable_balance\<close> is
  0, \<open>balance\<close> is 504.90 and \<open>overall_payments_for_future\<close> is 0.
\<close>

theorem C5_scenario_b:
  "create_advance UserGlobalBalance 1000 (ymd2ord 2021 1 1)
     = \<lparr> overall_payments_for_future = 0,
         actives_advances =
           [Advance (SimpleInterestRateStrategy (35 / 100000)) 1 1000 (ymd2ord 2021 1 1)] \<rparr>
   \<and> ymd2ord 2021 1 15
       - updated_at (Advance (SimpleInterestRateStrategy (35 / 100000)) 1 1000 (ymd2ord 2021 1 1))
     = 14
   \<and> interest_payable_balance
        (calculate_interest_payable_balance
           (Advance (SimpleInterestRateStrategy (35 / 100000)) 1 1000 (ymd2ord 2021 1 1))
           (ymd2ord 2021 1 15))
     = 490 / 100
   \<and> pay_advance (create_advance UserGlobalBalance 1000 (ymd2ord 2021 1 1)) 500 (ymd2ord 2021 1 15)
     = \<lparr> overall_payments_for_future = 0,
         actives_advances =
           [\<lparr> advance_identifier = 1, created_at = ymd2ord 2021 1 1,
               updated_at = ymd2ord 2021 1 15,
               interest_rate_strategy = SimpleInterestRateStrategy (35 / 100000),
               initial_amount = 1000, balance = 50490 / 100,
               interest_payable_balance = 0, interest_paid = 490 / 100 \<rparr>] \<rparr>
   \<and> replay (ymd2ord 2021 1 15)
        [\<lparr> event_type = ''advance'', event_amount = 1000, event_date = ymd2ord 2021 1 1 \<rparr>,
         \<lparr> event_type = ''payment'', event_amount = 500, event_date = ymd2ord 2021 1 15 \<rparr>]
     = pay_advance (create_advance UserGlobalBalance 1000 (ymd2ord 2021 1 1)) 500 (ymd2ord 2021 1 15)"
  by (simp add: ymd_defs replay_def apply_event_def create_advance_def pay_advance_def
        pay_interest_def pay_def calc_ipb_eq accrued_def Advance_def UserGlobalBalance_def Let_def)




text \<open>
  Claim C9. \<open>pay\<close> changes the balance and nothing else. For an amount that is not negative:
  when it is at most the balance, the balance goes down by it and 0 is returned; otherwise
  the balance becomes 0 and the amount minus the former balance is returned.
\<close>

theorem C9_pay_frame:
  "interest_payable_balance (fst (pay a amt)) = interest_payable_balance a
   \<and> interest_paid (fst (pay a amt)) = interest_paid a
   \<and> updated_at (fst (pay a amt)) = updated_at a
   \<and> created_at (fst (pay a amt)) = created_at a
   \<and> initial_amount (fst (pay a amt)) = initial_amount a
   \<and> advance_identifier (fst (pay a amt)) = advance_identifier a
   \<and> interest_rate_strategy (fst (pay a amt)) = interest_rate_strategy a
   \<and> (0 \<le> amt \<and> amt \<le> balance a \<longrightarrow>
        balance (fst (pay a amt)) = balance a - amt \<and> snd (pay a amt) = 0)
   \<and> (0 \<le> amt \<and> balance a < amt \<longrightarrow>
        balance (fst (pay a amt)) = 0 \<and> snd (pay a amt) = amt - balance a)"
  by (simp add: pay_def)

theorem C9_pay_frame_witness:
  "(0::rat) \<le> 300
   \<and> 300 \<le> balance (Advance (SimpleInterestRateStrategy (35 / 100000)) 1 1000 (ymd2ord 2021 1 1))
   \<and> pay (Advance (SimpleInterestRateStrategy (35 / 100000)) 1 1000 (ymd2ord 2021 1 1)) 300
     = ((Advance (SimpleInterestRateStrategy (35 / 100000)) 1 1000 (ymd2ord 2021 1 1))
          \<lparr> balance := 700 \<rparr>, 0)
   \<and> balance (Advance (SimpleInterestRateStrategy (35 / 100000)) 1 1000 (ymd2ord 2021 1 1)) < 1200
   \<and> pay (Advance (SimpleInterestRateStrategy (35 / 100000)) 1 1000 (ymd2ord 2021 1 1)) 1200
     = ((Advance (SimpleInterestRateStrategy (35 / 100000)) 1 1000 (ymd2ord 2021 1 1))
          \<lparr> balance := 0 \<rparr>, 200)"
  using C9_pay_frame [of "Advance (SimpleInterestRateStrategy (35 / 100000)) 1 1000 (ymd2ord 2021 1 1)" 300]
    C9_pay_frame [of "Advance (SimpleInterestRateStrategy (35 / 100000)) 1 1000 (ymd2ord 2021 1 1)" 1200]
  by (simp add: Advance_def prod_eq_iff)



end
